theory Spec2Isabelle
  imports Complex_Main "HOL-Library.Word"
begin

unbundle bit_operations_syntax

section \<open>The authentication plugin: key cache, token validation, request hook\<close>

subsection \<open>Data\<close>

text \<open>
  A JSON Web Key as the key endpoint publishes it. The plugin reads only \<open>kid\<close>; the
  other members are handed to the key conversion untouched.
\<close>

record jwk =
  jwk_kid :: string
  jwk_kty :: string
  jwk_alg :: string
  jwk_n :: string
  jwk_e :: string

text \<open>
  What \<open>axios.get(JWK_URL)\<close> does at the moment of the call: it throws (network error
  or a status outside 2xx), or it resolves to a document whose \<open>keys\<close> member is an
  array of keys.
\<close>

datatype jwks_response = Unreachable | Keys "jwk list"

text \<open>
  The module-level variables \<open>jwksCache\<close> (initially \<open>null\<close>) and \<open>jwksLastFetch\<close>
  (initially \<open>0\<close>). An array is truthy in JavaScript even when it is empty, so the
  cache is absent only while it is \<open>null\<close>. The last two fields have no counterpart
  in the source, they record effects: \<open>net_calls\<close> counts the calls of \<open>axios.get\<close>
  made so far, \<open>verifier_calls\<close> the calls of \<open>validateToken\<close>.
\<close>

record cache_state =
  jwksCache :: "jwk list option"
  jwksLastFetch :: int
  net_calls :: nat
  verifier_calls :: nat

definition initial_state :: cache_state where
  "initial_state = \<lparr>jwksCache = None, jwksLastFetch = 0, net_calls = 0, verifier_calls = 0\<rparr>"

definition CACHE_TTL :: int where
  "CACHE_TTL = 24 * 60 * 60 * 1000"

text \<open>
  The ways \<open>validateToken\<close> fails, named as the error taxonomy names them. The first
  four are the errors the plugin throws itself, with the messages below;
  \<open>KEY_CONVERSION\<close> is the exception of \<open>jwkToPem\<close>, which \<open>validateToken\<close> lets
  through as it is.
\<close>

datatype token_error = MALFORMED | UNKNOWN_KEY | INVALID | FETCH_ERROR | KEY_CONVERSION

fun error_message :: "token_error \<Rightarrow> string option" where
  "error_message MALFORMED = Some ''Invalid token format''"
| "error_message UNKNOWN_KEY = Some ''Invalid token signature: Key ID not found''"
| "error_message INVALID = Some ''Invalid token''"
| "error_message FETCH_ERROR = Some ''Failed to retrieve JWKs''"
| "error_message KEY_CONVERSION = None"

subsection \<open>getJwks\<close>

text \<open>
  \<open>resp\<close> is the outcome of the network call should one be made, \<open>now\<close> the value
  of \<open>Date.now()\<close> in milliseconds.
\<close>

definition fetch_jwks :: "jwks_response \<Rightarrow> int \<Rightarrow> cache_state \<Rightarrow> (token_error + jwk list) \<times> cache_state" where
  "fetch_jwks resp now st =
     (case resp of
        Keys ks \<Rightarrow>
          (Inr ks, st\<lparr>jwksCache := Some ks, jwksLastFetch := now, net_calls := Suc (net_calls st)\<rparr>)
      | Unreachable \<Rightarrow>
          (Inl FETCH_ERROR, st\<lparr>net_calls := Suc (net_calls st)\<rparr>))"

definition getJwks :: "jwks_response \<Rightarrow> int \<Rightarrow> cache_state \<Rightarrow> (token_error + jwk list) \<times> cache_state" where
  "getJwks resp now st =
     (case jwksCache st of
        None \<Rightarrow> fetch_jwks resp now st
      | Some cached \<Rightarrow>
          if now - jwksLastFetch st > CACHE_TTL then fetch_jwks resp now st
          else (Inr cached, st))"

subsection \<open>The token library\<close>

text \<open>
  A token as \<open>jwt.decode(token, {complete: true})\<close> presents it. A registered numeric
  claim is absent, present with a value that is not a number, or a JSON number of
  seconds, which need not be whole.
\<close>

datatype numeric_claim = Undefined | NotANumber | Num rat

record jwt_header =
  header_alg :: "string option"
  header_kid :: "string option"

record jwt_payload =
  claim_sub :: "string option"
  claim_email :: "string option"
  claim_iss :: "string option"
  claim_iat :: numeric_claim
  claim_nbf :: numeric_claim
  claim_exp :: numeric_claim

record decoded_jwt =
  header :: jwt_header
  payload :: jwt_payload
  signature :: string

text \<open>
  The operations of the libraries that the claims do not look into: decoding the three
  segments of a token string (\<open>None\<close> when it does not parse), converting a key to PEM
  (\<open>None\<close> when \<open>jwkToPem\<close> throws) and checking a signature under an algorithm and a
  PEM key.
\<close>

record jwt_lib =
  jwt_decode :: "string \<Rightarrow> decoded_jwt option"
  jwkToPem :: "jwk \<Rightarrow> string option"
  jws_verify :: "string \<Rightarrow> string \<Rightarrow> string \<Rightarrow> bool"

datatype jwt_failure = JsonWebTokenError string | NotBeforeError | TokenExpiredError

text \<open>
  \<open>jwt.verify(token, key, {issuer, algorithms})\<close> of the jsonwebtoken package with the
  two options the plugin passes, check by check in the package's order: the token is
  given and decodes, it carries a signature, a key is given, the header's algorithm is
  in \<open>algorithms\<close>, the key suits the algorithm and the signature verifies (both are
  \<open>jws_verify\<close> here), \<open>nbf\<close> is not in the future, \<open>exp\<close> is not reached, \<open>iss\<close> is
  the expected issuer. The clock is \<open>Math.floor(Date.now() / 1000)\<close>. Called without a
  callback, the function throws the failure; \<open>validateToken\<close> catches it.
\<close>

definition nbf_check :: "int \<Rightarrow> numeric_claim \<Rightarrow> jwt_failure option" where
  "nbf_check clockTimestamp c =
     (case c of
        Undefined \<Rightarrow> None
      | NotANumber \<Rightarrow> Some (JsonWebTokenError ''invalid nbf value'')
      | Num t \<Rightarrow> if t > of_int clockTimestamp then Some NotBeforeError else None)"

definition exp_check :: "int \<Rightarrow> numeric_claim \<Rightarrow> jwt_failure option" where
  "exp_check clockTimestamp c =
     (case c of
        Undefined \<Rightarrow> None
      | NotANumber \<Rightarrow> Some (JsonWebTokenError ''invalid exp value'')
      | Num t \<Rightarrow> if of_int clockTimestamp \<ge> t then Some TokenExpiredError else None)"

definition alg_allowed :: "string list \<Rightarrow> string option \<Rightarrow> bool" where
  "alg_allowed algorithms a = (case a of None \<Rightarrow> False | Some s \<Rightarrow> s \<in> set algorithms)"

definition claims_check :: "int \<Rightarrow> string \<Rightarrow> jwt_payload \<Rightarrow> jwt_failure + jwt_payload" where
  "claims_check clockTimestamp expected_iss p =
     (case nbf_check clockTimestamp (claim_nbf p) of
        Some e \<Rightarrow> Inl e
      | None \<Rightarrow>
         (case exp_check clockTimestamp (claim_exp p) of
            Some e \<Rightarrow> Inl e
          | None \<Rightarrow>
              if claim_iss p \<noteq> Some expected_iss
              then Inl (JsonWebTokenError (''jwt issuer invalid. expected: '' @ expected_iss))
              else Inr p))"

definition jwt_verify ::
  "jwt_lib \<Rightarrow> int \<Rightarrow> string \<Rightarrow> string \<Rightarrow> string \<Rightarrow> string list \<Rightarrow> jwt_failure + jwt_payload" where
  "jwt_verify lib now token pem expected_iss algorithms =
     (let clockTimestamp = now div 1000 in
      if token = [] then Inl (JsonWebTokenError ''jwt must be provided'')
      else
       (case jwt_decode lib token of
          None \<Rightarrow> Inl (JsonWebTokenError ''invalid token'')
        | Some d \<Rightarrow>
            if signature d = [] then Inl (JsonWebTokenError ''jwt signature is required'')
            else if pem = [] then Inl (JsonWebTokenError ''secret or public key must be provided'')
            else if \<not> alg_allowed algorithms (header_alg (header d))
              then Inl (JsonWebTokenError ''invalid algorithm'')
            else if \<not> jws_verify lib token (case header_alg (header d) of Some a \<Rightarrow> a | None \<Rightarrow> []) pem
              then Inl (JsonWebTokenError ''invalid signature'')
            else claims_check clockTimestamp expected_iss (payload d)))"

subsection \<open>validateToken\<close>

text \<open>
  The process environment and the outside world during one request: the two variables
  the issuer is built from (a template literal prints an unset variable as
  \<open>undefined\<close>), the key endpoint, and the clock as read by \<open>getJwks\<close> and, later, by
  \<open>jwt.verify\<close>.
\<close>

record auth_env =
  REGION :: "string option"
  USER_POOL_ID :: "string option"
  remote :: jwks_response
  clock_jwks :: int
  clock_verify :: int

definition template_part :: "string option \<Rightarrow> string" where
  "template_part v = (case v of None \<Rightarrow> ''undefined'' | Some s \<Rightarrow> s)"

definition issuer :: "auth_env \<Rightarrow> string" where
  "issuer env =
     ''https://cognito-idp.'' @ template_part (REGION env) @ ''.amazonaws.com/''
       @ template_part (USER_POOL_ID env)"

definition verify_with_key ::
  "jwt_lib \<Rightarrow> auth_env \<Rightarrow> string \<Rightarrow> jwk \<Rightarrow> token_error + jwt_payload" where
  "verify_with_key lib env token key =
     (case jwkToPem lib key of
        None \<Rightarrow> Inl KEY_CONVERSION
      | Some pem \<Rightarrow>
         (case jwt_verify lib (clock_verify env) token pem (issuer env) [''RS256''] of
            Inl e \<Rightarrow> Inl INVALID
          | Inr verifiedToken \<Rightarrow> Inr verifiedToken))"

definition resolve_and_verify ::
  "jwt_lib \<Rightarrow> auth_env \<Rightarrow> cache_state \<Rightarrow> string \<Rightarrow> string \<Rightarrow> (token_error + jwt_payload) \<times> cache_state" where
  "resolve_and_verify lib env st token k =
     (case getJwks (remote env) (clock_jwks env) st of
        (Inl e, st') \<Rightarrow> (Inl e, st')
      | (Inr jwks, st') \<Rightarrow>
         (case find (\<lambda>j. jwk_kid j = k) jwks of
            None \<Rightarrow> (Inl UNKNOWN_KEY, st')
          | Some key \<Rightarrow> (verify_with_key lib env token key, st')))"

definition entered :: "cache_state \<Rightarrow> cache_state" where
  "entered st = st\<lparr>verifier_calls := Suc (verifier_calls st)\<rparr>"

definition validateToken ::
  "jwt_lib \<Rightarrow> auth_env \<Rightarrow> cache_state \<Rightarrow> string \<Rightarrow> (token_error + jwt_payload) \<times> cache_state" where
  "validateToken lib env st token =
     (case jwt_decode lib token of
        None \<Rightarrow> (Inl MALFORMED, entered st)
      | Some decodedToken \<Rightarrow>
         (case header_kid (header decodedToken) of
            None \<Rightarrow> (Inl MALFORMED, entered st)
          | Some k \<Rightarrow>
              if k = [] then (Inl MALFORMED, entered st)
              else resolve_and_verify lib env (entered st) token k))"

subsection \<open>The request hook\<close>

record request =
  cookies_authToken :: "string option"
  user :: "jwt_payload option"

datatype reply = Reply int string

definition NO_TOKEN :: reply where
  "NO_TOKEN = Reply 401 ''No authentication token provided''"

definition INVALID_TOKEN :: reply where
  "INVALID_TOKEN = Reply 401 ''Invalid authentication token''"

text \<open>
  The hook returns the request (with \<open>user\<close> set on success), the reply it sent if it
  sent one, and the cache.
\<close>

definition authentication ::
  "jwt_lib \<Rightarrow> auth_env \<Rightarrow> cache_state \<Rightarrow> request \<Rightarrow> (request \<times> reply option) \<times> cache_state" where
  "authentication lib env st req =
     (case cookies_authToken req of
        None \<Rightarrow> ((req, Some NO_TOKEN), st)
      | Some token \<Rightarrow>
          if token = [] then ((req, Some NO_TOKEN), st)
          else
           (case validateToken lib env st token of
              (Inl e, st') \<Rightarrow> ((req, Some INVALID_TOKEN), st')
            | (Inr verifiedToken, st') \<Rightarrow> ((req\<lparr>user := Some verifiedToken\<rparr>, None), st')))"

section \<open>The error mapper\<close>

text \<open>
  An error thrown by a call to the identity provider, as far as \<open>handleCognitoError\<close>
  reads it: the members \<open>__type\<close> and \<open>name\<close>, each absent or a string, beside the
  message the provider wrote. The argument itself may be \<open>null\<close> or \<open>undefined\<close>.
\<close>

record cognito_error =
  raw_type :: "string option"
  raw_name :: "string option"
  raw_message :: "string option"

datatype app_error = AppError (message: string) (statusCode: int) (errorCode: string)

text \<open>\<open>a || b\<close> on operands that are \<open>undefined\<close> or strings; the empty string is falsy.\<close>

definition truthy :: "string option \<Rightarrow> bool" where
  "truthy v = (case v of None \<Rightarrow> False | Some s \<Rightarrow> s \<noteq> [])"

definition js_or :: "string option \<Rightarrow> string option \<Rightarrow> string option" where
  "js_or a b = (if truthy a then a else b)"

definition errorType :: "cognito_error option \<Rightarrow> string" where
  "errorType error =
     (case js_or (Option.bind error raw_type) (Option.bind error raw_name) of
        None \<Rightarrow> ''UnknownError''
      | Some t \<Rightarrow> if t \<noteq> [] then t else ''UnknownError'')"

definition handleCognitoError :: "cognito_error option \<Rightarrow> app_error" where
  "handleCognitoError error =
     (let t = errorType error in
      if t = ''UserNotConfirmedException'' then
        AppError ''User not confirmed. Please check your email for a verification link.'' 403 t
      else if t = ''NotAuthorizedException'' then
        AppError ''Incorrect username or password. Please verify your credentials.'' 401 t
      else if t = ''UserNotFoundException'' then
        AppError ''User not found. Please register or check your email address.'' 404 t
      else if t = ''PasswordResetRequiredException'' then
        AppError ''Password reset required. Please reset your password before logging in.'' 403 t
      else if t = ''CodeMismatchException'' then
        AppError ''Invalid verification code. Please try again.'' 400 t
      else if t = ''ExpiredCodeException'' then
        AppError ''Verification code has expired. Please request a new one.'' 400 t
      else if t = ''TooManyRequestsException'' then
        AppError ''Too many requests. Please try again later.'' 429 t
      else if t = ''InvalidPasswordException'' then
        AppError
          ''Password does not meet requirements. It should include uppercase, lowercase, numbers, and special characters.''
          400 t
      else if t = ''UsernameExistsException'' then
        AppError ''An account with this email already exists.'' 409 t
      else if t = ''LimitExceededException'' then
        AppError ''Operation limit exceeded. Please try again later.'' 429 t
      else
        AppError ''An authentication error occurred. Please try again later.'' 500 ''INTERNAL_AUTH_ERROR'')"

text \<open>The labels of the \<open>switch\<close>, in its order, each with the status of its case.\<close>

definition switch_statuses :: "(string \<times> int) list" where
  "switch_statuses =
     [(''UserNotConfirmedException'', 403), (''NotAuthorizedException'', 401),
      (''UserNotFoundException'', 404), (''PasswordResetRequiredException'', 403),
      (''CodeMismatchException'', 400), (''ExpiredCodeException'', 400),
      (''TooManyRequestsException'', 429), (''InvalidPasswordException'', 400),
      (''UsernameExistsException'', 409), (''LimitExceededException'', 429)]"

definition case_labels :: "string list" where
  "case_labels = map fst switch_statuses"

text \<open>
  The statuses as the specification lists them, nine of them: user not confirmed, not
  authorized, user not found, password reset required, code mismatch, code expired, rate
  limited, invalid password policy, username exists.
\<close>

definition spec_statuses :: "(string \<times> int) list" where
  "spec_statuses =
     [(''UserNotConfirmedException'', 403), (''NotAuthorizedException'', 401),
      (''UserNotFoundException'', 404), (''PasswordResetRequiredException'', 403),
      (''CodeMismatchException'', 400), (''ExpiredCodeException'', 400),
      (''TooManyRequestsException'', 429), (''InvalidPasswordException'', 400),
      (''UsernameExistsException'', 409)]"

definition generic_error :: app_error where
  "generic_error =
     AppError ''An authentication error occurred. Please try again later.'' 500 ''INTERNAL_AUTH_ERROR''"

section \<open>The credential hash\<close>

subsection \<open>Bytes\<close>

type_synonym byte = "8 word"

text \<open>
  A string is the list of bytes of its UTF-8 encoding, which is what \<open>update\<close> and the
  key argument of \<open>createHmac\<close> turn a string into; concatenation of well-formed
  strings is concatenation of their encodings.
\<close>

definition bytes_of :: "string \<Rightarrow> byte list" where
  "bytes_of s = map of_char s"

subsection \<open>SHA-256 (FIPS 180-4)\<close>

text \<open>
  The round constants are the first 32 bits of the fractional parts of the cube roots of
  the first 64 primes, the initial hash value those of the square roots of the first 8
  primes; both are written in decimal here.
\<close>

definition K256 :: "32 word list" where
  "K256 =
     [1116352408, 1899447441, 3049323471, 3921009573, 961987163, 1508970993,
      2453635748, 2870763221, 3624381080, 310598401, 607225278, 1426881987,
      1925078388, 2162078206, 2614888103, 3248222580, 3835390401, 4022224774,
      264347078, 604807628, 770255983, 1249150122, 1555081692, 1996064986,
      2554220882, 2821834349, 2952996808, 3210313671, 3336571891, 3584528711,
      113926993, 338241895, 666307205, 773529912, 1294757372, 1396182291,
      1695183700, 1986661051, 2177026350, 2456956037, 2730485921, 2820302411,
      3259730800, 3345764771, 3516065817, 3600352804, 4094571909, 275423344,
      430227734, 506948616, 659060556, 883997877, 958139571, 1322822218,
      1537002063, 1747873779, 1955562222, 2024104815, 2227730452, 2361852424,
      2428436474, 2756734187, 3204031479, 3329325298]"

definition H256 :: "32 word list" where
  "H256 =
     [1779033703, 3144134277, 1013904242, 2773480762, 1359893119, 2600822924,
      528734635, 1541459225]"

definition Ch :: "32 word \<Rightarrow> 32 word \<Rightarrow> 32 word \<Rightarrow> 32 word" where
  "Ch x y z = (x AND y) XOR (NOT x AND z)"

definition Maj :: "32 word \<Rightarrow> 32 word \<Rightarrow> 32 word \<Rightarrow> 32 word" where
  "Maj x y z = (x AND y) XOR (x AND z) XOR (y AND z)"

definition Sigma0 :: "32 word \<Rightarrow> 32 word" where
  "Sigma0 x = word_rotr 2 x XOR word_rotr 13 x XOR word_rotr 22 x"

definition Sigma1 :: "32 word \<Rightarrow> 32 word" where
  "Sigma1 x = word_rotr 6 x XOR word_rotr 11 x XOR word_rotr 25 x"

definition sigma0 :: "32 word \<Rightarrow> 32 word" where
  "sigma0 x = word_rotr 7 x XOR word_rotr 18 x XOR drop_bit 3 x"

definition sigma1 :: "32 word \<Rightarrow> 32 word" where
  "sigma1 x = word_rotr 17 x XOR word_rotr 19 x XOR drop_bit 10 x"

text \<open>Padding: a one bit, zero bits up to 56 modulo 64 bytes, the bit length on 8 bytes.\<close>

definition be64 :: "nat \<Rightarrow> byte list" where
  "be64 n = map (\<lambda>i. ucast (drop_bit (8 * i) (of_nat n :: 64 word))) [7, 6, 5, 4, 3, 2, 1, 0]"

definition sha_pad :: "byte list \<Rightarrow> byte list" where
  "sha_pad m = m @ [0x80] @ replicate ((119 - length m mod 64) mod 64) 0 @ be64 (8 * length m)"

definition be32 :: "byte list \<Rightarrow> 32 word" where
  "be32 bs = foldl (\<lambda>acc b. push_bit 8 acc OR ucast b) 0 bs"

definition be32_bytes :: "32 word \<Rightarrow> byte list" where
  "be32_bytes w = [ucast (drop_bit 24 w), ucast (drop_bit 16 w), ucast (drop_bit 8 w), ucast w]"

definition split_every :: "nat \<Rightarrow> 'a list \<Rightarrow> 'a list list" where
  "split_every n xs = map (\<lambda>i. take n (drop (n * i) xs)) [0..<length xs div n]"

fun extend_schedule :: "nat \<Rightarrow> 32 word list \<Rightarrow> 32 word list" where
  "extend_schedule 0 w = w"
| "extend_schedule (Suc n) w =
     extend_schedule n
       (w @ [sigma1 (w ! (length w - 2)) + w ! (length w - 7)
             + sigma0 (w ! (length w - 15)) + w ! (length w - 16)])"

definition schedule :: "byte list \<Rightarrow> 32 word list" where
  "schedule block = extend_schedule 48 (map be32 (split_every 4 block))"

type_synonym sha_state =
  "32 word \<times> 32 word \<times> 32 word \<times> 32 word \<times> 32 word \<times> 32 word \<times> 32 word \<times> 32 word"

fun sha_round :: "sha_state \<Rightarrow> 32 word \<times> 32 word \<Rightarrow> sha_state" where
  "sha_round (a, b, c, d, e, f, g, h) (k, w) =
     (let t1 = h + Sigma1 e + Ch e f g + k + w;
          t2 = Sigma0 a + Maj a b c
      in (t1 + t2, a, b, c, d + t1, e, f, g))"

fun sha_add :: "sha_state \<Rightarrow> sha_state \<Rightarrow> sha_state" where
  "sha_add (a, b, c, d, e, f, g, h) (a', b', c', d', e', f', g', h') =
     (a + a', b + b', c + c', d + d', e + e', f + f', g + g', h + h')"

definition compress :: "sha_state \<Rightarrow> byte list \<Rightarrow> sha_state" where
  "compress hs block = sha_add hs (foldl sha_round hs (zip K256 (schedule block)))"

fun state_bytes :: "sha_state \<Rightarrow> byte list" where
  "state_bytes (a, b, c, d, e, f, g, h) = concat (map be32_bytes [a, b, c, d, e, f, g, h])"

definition sha256 :: "byte list \<Rightarrow> byte list" where
  "sha256 m =
     state_bytes
       (foldl compress
          (H256 ! 0, H256 ! 1, H256 ! 2, H256 ! 3, H256 ! 4, H256 ! 5, H256 ! 6, H256 ! 7)
          (split_every 64 (sha_pad m)))"

subsection \<open>HMAC (RFC 2104) and base64 (RFC 4648)\<close>

definition hmac_key_block :: "byte list \<Rightarrow> byte list" where
  "hmac_key_block key =
     (let k = (if length key > 64 then sha256 key else key)
      in k @ replicate (64 - length k) 0)"

definition hmac_sha256 :: "byte list \<Rightarrow> byte list \<Rightarrow> byte list" where
  "hmac_sha256 key msg =
     (let k = hmac_key_block key
      in sha256 (map (\<lambda>b. b XOR 0x5c) k @ sha256 (map (\<lambda>b. b XOR 0x36) k @ msg)))"

definition b64_alphabet :: string where
  "b64_alphabet = ''ABCDEFGHIJKLMNOPQRSTUVWXYZabcdefghijklmnopqrstuvwxyz0123456789+/''"

definition b64_char :: "byte \<Rightarrow> char" where
  "b64_char v = b64_alphabet ! unat (v AND 0x3f)"

fun base64 :: "byte list \<Rightarrow> string" where
  "base64 [] = []"
| "base64 [a] =
     [b64_char (drop_bit 2 a), b64_char (push_bit 4 (a AND 3)), CHR ''='', CHR ''='']"
| "base64 [a, b] =
     [b64_char (drop_bit 2 a), b64_char (push_bit 4 (a AND 3) OR drop_bit 4 b),
      b64_char (push_bit 2 (b AND 0xf)), CHR ''='']"
| "base64 (a # b # c # rest) =
     [b64_char (drop_bit 2 a), b64_char (push_bit 4 (a AND 3) OR drop_bit 4 b),
      b64_char (push_bit 2 (b AND 0xf) OR drop_bit 6 c), b64_char c] @ base64 rest"

definition hex_digit :: "byte \<Rightarrow> char" where
  "hex_digit v = ''0123456789abcdef'' ! unat (v AND 0xf)"

definition hex :: "byte list \<Rightarrow> string" where
  "hex bs = concat (map (\<lambda>b. [hex_digit (drop_bit 4 b), hex_digit b]) bs)"

subsection \<open>The \<open>crypto\<close> module as \<open>calculateSecretHash\<close> uses it\<close>

datatype digest_algorithm = SHA256

datatype digest_encoding = Base64 | Hex

record hmac_object =
  hmac_algorithm :: digest_algorithm
  hmac_key :: "byte list"
  hmac_data :: "byte list"

definition createHmac :: "digest_algorithm \<Rightarrow> string \<Rightarrow> hmac_object" where
  "createHmac algorithm key = \<lparr>hmac_algorithm = algorithm, hmac_key = bytes_of key, hmac_data = []\<rparr>"

definition update :: "hmac_object \<Rightarrow> string \<Rightarrow> hmac_object" where
  "update h data = h\<lparr>hmac_data := hmac_data h @ bytes_of data\<rparr>"

definition digest :: "hmac_object \<Rightarrow> digest_encoding \<Rightarrow> string" where
  "digest h encoding =
     (let mac = (case hmac_algorithm h of SHA256 \<Rightarrow> hmac_sha256 (hmac_key h) (hmac_data h))
      in case encoding of Base64 \<Rightarrow> base64 mac | Hex \<Rightarrow> hex mac)"

definition calculateSecretHash :: "string \<Rightarrow> string \<Rightarrow> string \<Rightarrow> string" where
  "calculateSecretHash clientId clientSecret username =
     digest (update (createHmac SHA256 clientSecret) (username @ clientId)) Base64"

text \<open>The hash as the specification words it.\<close>

definition spec_hash :: "string \<Rightarrow> string \<Rightarrow> string \<Rightarrow> string" where
  "spec_hash clientId clientSecret username =
     base64 (hmac_sha256 (bytes_of clientSecret) (bytes_of (username @ clientId)))"

section \<open>Concrete inputs\<close>

text \<open>
  Two RSA keys and a key of another type, a token library whose tokens are a few fixed
  strings and whose signature check accepts everything, and an environment whose key
  endpoint serves the two RSA keys. Clocks are in milliseconds, \<open>exp\<close> in seconds.
\<close>

definition key_abc :: jwk where
  "key_abc = \<lparr>jwk_kid = ''abc'', jwk_kty = ''RSA'', jwk_alg = ''RS256'', jwk_n = ''modulus-abc'', jwk_e = ''AQAB''\<rparr>"

definition key_xyz :: jwk where
  "key_xyz = \<lparr>jwk_kid = ''xyz'', jwk_kty = ''RSA'', jwk_alg = ''RS256'', jwk_n = ''modulus-xyz'', jwk_e = ''AQAB''\<rparr>"


definition demo_issuer :: string where
  "demo_issuer = ''https://cognito-idp.us-west-2.amazonaws.com/us-west-2_Pool1''"

definition demo_payload :: "rat \<Rightarrow> jwt_payload" where
  "demo_payload e =
     \<lparr>claim_sub = Some ''user-1'', claim_email = Some ''u@example.com'', claim_iss = Some demo_issuer,
      claim_iat = Num 1000, claim_nbf = Undefined, claim_exp = Num e\<rparr>"

definition demo_jwt :: "string \<Rightarrow> string \<Rightarrow> rat \<Rightarrow> decoded_jwt" where
  "demo_jwt a k e =
     \<lparr>header = \<lparr>header_alg = Some a, header_kid = Some k\<rparr>, payload = demo_payload e, signature = ''sig''\<rparr>"

definition demo_decode :: "string \<Rightarrow> decoded_jwt option" where
  "demo_decode s =
     (if s = ''rs256.abc.live'' then Some (demo_jwt ''RS256'' ''abc'' 200000)
      else if s = ''rs256.xyz.live'' then Some (demo_jwt ''RS256'' ''xyz'' 200000)
      else if s = ''hs256.abc.live'' then Some (demo_jwt ''HS256'' ''abc'' 200000)
      else if s = ''hs256.xyz.live'' then Some (demo_jwt ''HS256'' ''xyz'' 200000)
      else if s = ''rs256.abc.expired'' then Some (demo_jwt ''RS256'' ''abc'' 10)
      else if s = ''rs256.xyz.expired'' then Some (demo_jwt ''RS256'' ''xyz'' 10)
      else if s = ''rs256.abc.half'' then Some (demo_jwt ''RS256'' ''abc'' (200001 / 2))
      else if s = ''hs256.oct.live'' then Some (demo_jwt ''HS256'' ''oct'' 200000)
      else if s = ''rs256.oct.expired'' then Some (demo_jwt ''RS256'' ''oct'' 10)
      else None)"

definition demo_lib :: jwt_lib where
  "demo_lib = \<lparr>jwt_decode = demo_decode, jwkToPem = (\<lambda>k. Some (jwk_n k)), jws_verify = (\<lambda>t a pem. True)\<rparr>"

definition demo_env :: auth_env where
  "demo_env =
     \<lparr>REGION = Some ''us-west-2'', USER_POOL_ID = Some ''us-west-2_Pool1'',
      remote = Keys [key_abc, key_xyz], clock_jwks = 100000000, clock_verify = 100000002\<rparr>"



text \<open>A cache that holds the first key only, fetched at 90000000: fresh at 100000000.\<close>

definition fresh_state :: cache_state where
  "fresh_state = \<lparr>jwksCache = Some [key_abc], jwksLastFetch = 90000000, net_calls = 1, verifier_calls = 0\<rparr>"


text \<open>The same cache, fetched at 0: older than 24 hours at 86400001 and at 100000000.\<close>

definition stale_state :: cache_state where
  "stale_state = \<lparr>jwksCache = Some [key_abc], jwksLastFetch = 0, net_calls = 1, verifier_calls = 0\<rparr>"

definition no_cookie_request :: request where
  "no_cookie_request = \<lparr>cookies_authToken = None, user = None\<rparr>"


definition user_not_found :: "cognito_error option" where
  "user_not_found =
     Some \<lparr>raw_type = Some ''UserNotFoundException'', raw_name = Some ''UserNotFoundException'',
           raw_message = Some ''User does not exist.''\<rparr>"

definition limit_exceeded :: "cognito_error option" where
  "limit_exceeded =
     Some \<lparr>raw_type = Some ''LimitExceededException'', raw_name = Some ''LimitExceededException'',
           raw_message = Some ''Attempt limit exceeded, please try after some time.''\<rparr>"

definition internal_failure :: "cognito_error option" where
  "internal_failure =
     Some \<lparr>raw_type = None, raw_name = Some ''InternalErrorException'',
           raw_message = Some ''Internal failure at pool us-west-2_Pool1''\<rparr>"

section \<open>The key cache\<close>


lemma getJwks_net_calls:
  "getJwks resp now st = (r, st') \<Longrightarrow> net_calls st \<le> net_calls st' \<and> net_calls st' \<le> Suc (net_calls st)"
  by (auto simp: getJwks_def fetch_jwks_def split: option.splits if_splits jwks_response.splits)

lemma getJwks_verifier_calls:
  "getJwks resp now st = (r, st') \<Longrightarrow> verifier_calls st' = verifier_calls st"
  by (auto simp: getJwks_def fetch_jwks_def split: option.splits if_splits jwks_response.splits)

text \<open>
  Claim C5. When a cached key set exists and the time since the last successful fetch is
  at most the 24-hour TTL, \<open>getJwks\<close> returns the cached set and leaves the state as it
  was, the count of network calls included, whatever the key endpoint would have
  answered; in particular when it is unreachable.
\<close>

theorem getJwks_fresh_cache_no_network:
  assumes "jwksCache st = Some cached" and "now - jwksLastFetch st \<le> CACHE_TTL"
  shows "getJwks resp now st = (Inr cached, st) \<and> getJwks Unreachable now st = (Inr cached, st)
         \<and> net_calls (snd (getJwks resp now st)) = net_calls st"
  using assms by (simp add: getJwks_def)

theorem getJwks_fresh_cache_no_network_witness:
  "jwksCache fresh_state = Some [key_abc] \<and> 100000000 - jwksLastFetch fresh_state \<le> CACHE_TTL
   \<and> getJwks Unreachable 100000000 fresh_state = (Inr [key_abc], fresh_state)
   \<and> net_calls (snd (getJwks Unreachable 100000000 fresh_state)) = 1"
proof -
  have c: "jwksCache fresh_state = Some [key_abc]" by (simp add: fresh_state_def)
  have a: "100000000 - jwksLastFetch fresh_state \<le> CACHE_TTL" by (simp add: fresh_state_def CACHE_TTL_def)
  have n: "net_calls fresh_state = 1" by (simp add: fresh_state_def)
  show ?thesis
    using getJwks_fresh_cache_no_network [OF c a, of Unreachable] c a n by simp
qed

text \<open>
  Claim C2 says that a failed fetch falls back to a stale cached set. The source has no
  such fallback: the \<open>catch\<close> block of \<open>getJwks\<close> throws whatever the cache holds. With
  one key cached at time 0 and the endpoint unreachable one millisecond after the TTL,
  the call fails.
\<close>

theorem getJwks_stale_fallback_counterexample:
  "jwksCache stale_state = Some [key_abc]
   \<and> fst (getJwks Unreachable (CACHE_TTL + 1) stale_state) = Inl FETCH_ERROR
   \<and> fst (getJwks Unreachable (CACHE_TTL + 1) stale_state) \<noteq> Inr [key_abc]"
  by (simp add: getJwks_def fetch_jwks_def stale_state_def)

text \<open>
  Claim C2, amended. Whenever \<open>getJwks\<close> has to fetch (there is no cached set, or the
  cached set is older than the TTL) and the fetch fails, the call fails with the fetch
  error, whether or not a stale set is cached; the cached set and its timestamp stay as
  they were and one network call has been made.
\<close>

theorem getJwks_fetch_failure_propagates:
  assumes "jwksCache st = None \<or> now - jwksLastFetch st > CACHE_TTL"
  shows "getJwks Unreachable now st = (Inl FETCH_ERROR, st\<lparr>net_calls := Suc (net_calls st)\<rparr>)"
  using assms by (auto simp: getJwks_def fetch_jwks_def split: option.splits)

text \<open>Two instances: a stale cache, and no cache at all.\<close>

theorem getJwks_fetch_failure_propagates_witness:
  "CACHE_TTL + 1 - jwksLastFetch stale_state > CACHE_TTL
   \<and> getJwks Unreachable (CACHE_TTL + 1) stale_state
       = (Inl FETCH_ERROR, stale_state\<lparr>net_calls := 2\<rparr>)
   \<and> jwksCache initial_state = None
   \<and> getJwks Unreachable 5 initial_state = (Inl FETCH_ERROR, initial_state\<lparr>net_calls := 1\<rparr>)"
proof -
  have a: "CACHE_TTL + 1 - jwksLastFetch stale_state > CACHE_TTL"
    by (simp add: stale_state_def)
  have b: "jwksCache initial_state = None"
    by (simp add: initial_state_def)
  have n: "net_calls stale_state = 1" "net_calls initial_state = 0"
    by (simp_all add: stale_state_def initial_state_def)
  from getJwks_fetch_failure_propagates [OF disjI2, OF a]
       getJwks_fetch_failure_propagates [OF disjI1, OF b, of 5] a b n
  show ?thesis by simp
qed

section \<open>Token validation and the request hook\<close>

subsection \<open>What an accepted token has passed\<close>












lemma validateToken_verifier_calls:
  "verifier_calls (snd (validateToken lib env st token)) = Suc (verifier_calls st)"
  by (auto simp: validateToken_def resolve_and_verify_def entered_def
      split: option.splits prod.splits sum.splits dest: getJwks_verifier_calls)












lemma authentication_cookie_calls_verifier:
  "cookies_authToken req = Some token \<Longrightarrow> token \<noteq> [] \<Longrightarrow>
     verifier_calls (snd (authentication lib env st req)) = Suc (verifier_calls st)"
  using validateToken_verifier_calls [of lib env st token]
  by (auto simp: authentication_def split: prod.splits sum.splits)



lemmas demo_defs =
  validateToken_def resolve_and_verify_def verify_with_key_def jwt_verify_def claims_check_def
  nbf_check_def exp_check_def alg_allowed_def getJwks_def fetch_jwks_def entered_def
  demo_lib_def demo_decode_def demo_jwt_def demo_payload_def demo_env_def
  key_abc_def key_xyz_def issuer_def template_part_def demo_issuer_def CACHE_TTL_def

subsection \<open>Unknown key identifiers\<close>

text \<open>
  Claim C1 says that a key identifier missing from the cache costs exactly one refresh of
  the cache and a retry. \<open>validateToken\<close> calls \<open>getJwks\<close> once and throws when
  \<open>find\<close> returns nothing; there is no second call. With a fresh cache that holds key
  \<open>abc\<close> and an endpoint that serves \<open>abc\<close> and \<open>xyz\<close>, a live, well-signed token
  for \<open>xyz\<close> is rejected and no network call is made; on the cache as a refresh would
  have left it, the same token verifies.
\<close>

theorem validateToken_retry_counterexample:
  "validateToken demo_lib demo_env fresh_state ''rs256.xyz.live'' = (Inl UNKNOWN_KEY, entered fresh_state)
   \<and> jwksCache fresh_state = Some [key_abc] \<and> remote demo_env = Keys [key_abc, key_xyz]
   \<and> jwk_kid key_abc = ''abc'' \<and> jwk_kid key_xyz = ''xyz''
   \<and> net_calls (entered fresh_state) = net_calls fresh_state
   \<and> fst (validateToken demo_lib demo_env
             (snd (fetch_jwks (remote demo_env) (clock_jwks demo_env) fresh_state)) ''rs256.xyz.live'')
       = Inr (demo_payload 200000)"
  by (simp add: demo_defs fresh_state_def)

text \<open>
  Claim C1, amended. When the key identifier of a token is absent from the key set that
  the one call of \<open>getJwks\<close> returns, \<open>validateToken\<close> rejects with \<open>UNKNOWN_KEY\<close>
  and the state is the one that call left: no refresh is forced and nothing is retried.
  At most one network call is made (the fetch of an empty or expired cache), and none,
  with the cached set untouched, while the cache is within its TTL.
\<close>

theorem validateToken_unknown_key_no_retry:
  assumes "jwt_decode lib token = Some d" and "header_kid (header d) = Some k" and "k \<noteq> []"
    and "getJwks (remote env) (clock_jwks env) (entered st) = (Inr jwks, st')"
    and "k \<notin> set (map jwk_kid jwks)"
  shows "validateToken lib env st token = (Inl UNKNOWN_KEY, st')
         \<and> net_calls st' \<le> Suc (net_calls st)
         \<and> (jwksCache st \<noteq> None \<and> clock_jwks env - jwksLastFetch st \<le> CACHE_TTL
              \<longrightarrow> net_calls st' = net_calls st \<and> jwksCache st' = jwksCache st)"
proof -
  have none: "find (\<lambda>j. jwk_kid j = k) jwks = None"
    using assms(5) by (auto simp: find_None_iff)
  have res: "validateToken lib env st token = (Inl UNKNOWN_KEY, st')"
    using assms(1-4) none by (simp add: validateToken_def resolve_and_verify_def)
  have calls: "net_calls st' \<le> Suc (net_calls st)"
    using getJwks_net_calls [OF assms(4)] by (simp add: entered_def)
  have fresh: "net_calls st' = net_calls st \<and> jwksCache st' = jwksCache st"
    if "jwksCache st \<noteq> None \<and> clock_jwks env - jwksLastFetch st \<le> CACHE_TTL"
    using that assms(4) by (auto simp: getJwks_def entered_def)
  show ?thesis using res calls fresh by blast
qed

text \<open>
  An instance: the cache is older than the TTL, the endpoint serves key \<open>abc\<close> only, the
  token names \<open>xyz\<close>. One fetch, then the rejection.
\<close>

theorem validateToken_unknown_key_no_retry_witness:
  "jwt_decode demo_lib ''rs256.xyz.live'' = Some (demo_jwt ''RS256'' ''xyz'' 200000)
   \<and> header_kid (header (demo_jwt ''RS256'' ''xyz'' 200000)) = Some ''xyz'' \<and> ''xyz'' \<noteq> []
   \<and> getJwks (remote (demo_env\<lparr>remote := Keys [key_abc]\<rparr>)) (clock_jwks (demo_env\<lparr>remote := Keys [key_abc]\<rparr>))
        (entered stale_state)
       = (Inr [key_abc], \<lparr>jwksCache = Some [key_abc], jwksLastFetch = 100000000, net_calls = 2, verifier_calls = 1\<rparr>)
   \<and> ''xyz'' \<notin> set (map jwk_kid [key_abc])
   \<and> validateToken demo_lib (demo_env\<lparr>remote := Keys [key_abc]\<rparr>) stale_state ''rs256.xyz.live''
       = (Inl UNKNOWN_KEY, \<lparr>jwksCache = Some [key_abc], jwksLastFetch = 100000000, net_calls = 2, verifier_calls = 1\<rparr>)
   \<and> net_calls stale_state = 1"
proof -
  let ?env = "demo_env\<lparr>remote := Keys [key_abc]\<rparr>"
  let ?st' = "\<lparr>jwksCache = Some [key_abc], jwksLastFetch = 100000000, net_calls = 2, verifier_calls = 1\<rparr>"
  have h1: "jwt_decode demo_lib ''rs256.xyz.live'' = Some (demo_jwt ''RS256'' ''xyz'' 200000)"
    by (simp add: demo_lib_def demo_decode_def)
  have h2: "header_kid (header (demo_jwt ''RS256'' ''xyz'' 200000)) = Some ''xyz''"
    by (simp add: demo_jwt_def)
  have h3: "''xyz'' \<noteq> []" by simp
  have h4: "getJwks (remote ?env) (clock_jwks ?env) (entered stale_state) = (Inr [key_abc], ?st')"
    by (simp add: getJwks_def fetch_jwks_def entered_def stale_state_def demo_env_def CACHE_TTL_def)
  have h5: "''xyz'' \<notin> set (map jwk_kid [key_abc])" by (simp add: key_abc_def)
  have n: "net_calls stale_state = 1" by (simp add: stale_state_def)
  from validateToken_unknown_key_no_retry [OF h1 h2 h3 h4 h5]
  have "validateToken demo_lib ?env stale_state ''rs256.xyz.live'' = (Inl UNKNOWN_KEY, ?st')"
    by blast
  with h1 h2 h3 h4 h5 n show ?thesis by blast
qed

subsection \<open>The identity invariant\<close>




subsection \<open>Algorithms outside the allow-list\<close>




subsection \<open>Expired tokens\<close>




subsection \<open>Requests without the cookie\<close>

text \<open>
  Claim C7. A request without the \<open>authToken\<close> cookie is answered with 401 and the
  message of \<open>NO_TOKEN\<close>; the request and the state are returned as they were, for
  every token library and every environment: \<open>validateToken\<close> is not called, the cache
  is not read and no network call is made.
\<close>

theorem authentication_no_cookie:
  assumes "cookies_authToken req = None"
  shows "authentication lib env st req = ((req, Some (Reply 401 ''No authentication token provided'')), st)
         \<and> verifier_calls (snd (authentication lib env st req)) = verifier_calls st
         \<and> net_calls (snd (authentication lib env st req)) = net_calls st"
  using assms by (simp add: authentication_def NO_TOKEN_def)

text \<open>An instance, with the counters of the state unchanged.\<close>

theorem authentication_no_cookie_witness:
  "cookies_authToken no_cookie_request = None
   \<and> authentication demo_lib demo_env fresh_state no_cookie_request
       = ((no_cookie_request, Some (Reply 401 ''No authentication token provided'')), fresh_state)"
proof -
  have h: "cookies_authToken no_cookie_request = None" by (simp add: no_cookie_request_def)
  from authentication_no_cookie [OF h, of demo_lib demo_env fresh_state] h
  show ?thesis by blast
qed

section \<open>The error mapper\<close>

lemma switch_statuses_spec:
  "switch_statuses = spec_statuses @ [(''LimitExceededException'', 429)]"
  by (simp add: switch_statuses_def spec_statuses_def)

lemma handleCognitoError_errorCode:
  "errorType error \<in> set case_labels \<Longrightarrow> errorCode (handleCognitoError error) = errorType error"
  by (auto simp: handleCognitoError_def case_labels_def switch_statuses_def Let_def)

lemma handleCognitoError_default:
  "errorType error \<notin> set case_labels \<Longrightarrow> handleCognitoError error = generic_error"
  by (simp add: handleCognitoError_def case_labels_def switch_statuses_def generic_error_def Let_def)

lemma handleCognitoError_status:
  "(c, s) \<in> set switch_statuses \<Longrightarrow> errorType error = c \<Longrightarrow> statusCode (handleCognitoError error) = s"
  by (auto simp: handleCognitoError_def switch_statuses_def Let_def)

text \<open>
  Claim C9 says that the nine listed codes are the recognized ones and that every other
  code gives the generic error with status 500. The \<open>switch\<close> has a tenth case:
  \<open>LimitExceededException\<close>, which is not in the list, gives status 429 under its own
  code.
\<close>

theorem handleCognitoError_limit_counterexample:
  "errorType limit_exceeded = ''LimitExceededException''
   \<and> ''LimitExceededException'' \<notin> set (map fst spec_statuses)
   \<and> handleCognitoError limit_exceeded
       = AppError ''Operation limit exceeded. Please try again later.'' 429 ''LimitExceededException''
   \<and> handleCognitoError limit_exceeded \<noteq> generic_error
   \<and> statusCode (handleCognitoError limit_exceeded) \<noteq> 500"
  by (simp add: errorType_def limit_exceeded_def js_or_def truthy_def spec_statuses_def
      handleCognitoError_def generic_error_def)

text \<open>
  Claim C9, amended. The mapper recognizes ten provider error codes, the nine of the
  list and \<open>LimitExceededException\<close> (limit exceeded, status 429). For each of them it
  returns the status of the table and the code itself as machine-readable code; the
  codes of two different recognized codes stay different and none of them is the generic
  code. Every code that is not one of the ten gives the one generic error with status
  500, a constant: nothing of the provider's error is in it. The result is a function
  of the error's code alone, so the provider's message never reaches it.
\<close>

theorem handleCognitoError_mapping:
  "(\<forall>(c, s) \<in> set switch_statuses.
      errorType error = c \<longrightarrow>
        statusCode (handleCognitoError error) = s \<and> errorCode (handleCognitoError error) = c)
   \<and> switch_statuses = spec_statuses @ [(''LimitExceededException'', 429)]
   \<and> (errorType error \<in> set (map fst switch_statuses) \<and> errorType error' \<in> set (map fst switch_statuses)
        \<and> errorType error \<noteq> errorType error'
      \<longrightarrow> errorCode (handleCognitoError error) \<noteq> errorCode (handleCognitoError error'))
   \<and> (errorType error \<in> set (map fst switch_statuses)
      \<longrightarrow> errorCode (handleCognitoError error) \<noteq> errorCode generic_error)
   \<and> (errorType error \<notin> set (map fst switch_statuses)
      \<longrightarrow> handleCognitoError error = generic_error \<and> statusCode generic_error = 500)
   \<and> (errorType error = errorType error' \<longrightarrow> handleCognitoError error = handleCognitoError error')"
proof -
  have listed: "statusCode (handleCognitoError error) = s \<and> errorCode (handleCognitoError error) = c"
    if m: "(c, s) \<in> set switch_statuses" and e: "errorType error = c" for c s
  proof -
    have "c \<in> set (map fst switch_statuses)"
      using m by (simp add: image_iff) (rule bexI [of _ "(c, s)"], simp_all)
    then have "errorType error \<in> set case_labels" using e by (simp add: case_labels_def)
    then have "errorCode (handleCognitoError error) = c"
      using handleCognitoError_errorCode [of error] e by simp
    moreover have "statusCode (handleCognitoError error) = s"
      by (rule handleCognitoError_status [OF m e])
    ultimately show ?thesis by simp
  qed
  have A: "\<forall>(c, s) \<in> set switch_statuses.
      errorType error = c \<longrightarrow>
        statusCode (handleCognitoError error) = s \<and> errorCode (handleCognitoError error) = c"
    using listed by blast
  have B: "errorType error \<in> set (map fst switch_statuses) \<and> errorType error' \<in> set (map fst switch_statuses)
        \<and> errorType error \<noteq> errorType error'
      \<longrightarrow> errorCode (handleCognitoError error) \<noteq> errorCode (handleCognitoError error')"
    using handleCognitoError_errorCode [of error] handleCognitoError_errorCode [of error']
    by (simp add: case_labels_def)
  have g: "errorCode generic_error = ''INTERNAL_AUTH_ERROR''" "statusCode generic_error = 500"
    by (simp_all add: generic_error_def)
  have l: "''INTERNAL_AUTH_ERROR'' \<notin> set case_labels"
    by (simp add: case_labels_def switch_statuses_def)
  have C: "errorType error \<in> set (map fst switch_statuses)
      \<longrightarrow> errorCode (handleCognitoError error) \<noteq> errorCode generic_error"
  proof
    assume "errorType error \<in> set (map fst switch_statuses)"
    then have in_labels: "errorType error \<in> set case_labels" by (simp add: case_labels_def)
    then have "errorCode (handleCognitoError error) = errorType error"
      by (rule handleCognitoError_errorCode)
    with in_labels l g(1) show "errorCode (handleCognitoError error) \<noteq> errorCode generic_error"
      by metis
  qed
  have D: "errorType error \<notin> set (map fst switch_statuses)
      \<longrightarrow> handleCognitoError error = generic_error \<and> statusCode generic_error = 500"
    using handleCognitoError_default [of error] g(2) by (simp add: case_labels_def)
  have E: "errorType error = errorType error' \<longrightarrow> handleCognitoError error = handleCognitoError error'"
    by (simp add: handleCognitoError_def)
  from A switch_statuses_spec B C D E show ?thesis by (intro conjI)
qed

text \<open>
  Three instances: \<open>UserNotFoundException\<close> gives 404 and \<open>LimitExceededException\<close> 429,
  each under its own code; an error the \<open>switch\<close> does not know, with a message that
  names the user pool, gives the generic error.
\<close>

theorem handleCognitoError_mapping_witness:
  "errorType user_not_found = ''UserNotFoundException''
   \<and> statusCode (handleCognitoError user_not_found) = 404
   \<and> errorCode (handleCognitoError user_not_found) = ''UserNotFoundException''
   \<and> errorType limit_exceeded = ''LimitExceededException''
   \<and> statusCode (handleCognitoError limit_exceeded) = 429
   \<and> errorCode (handleCognitoError limit_exceeded) = ''LimitExceededException''
   \<and> errorType internal_failure \<notin> set (map fst switch_statuses)
   \<and> handleCognitoError internal_failure
       = AppError ''An authentication error occurred. Please try again later.'' 500 ''INTERNAL_AUTH_ERROR''"
proof -
  have t1: "errorType user_not_found = ''UserNotFoundException''"
    by (simp add: errorType_def user_not_found_def js_or_def truthy_def)
  have m1: "(''UserNotFoundException'', 404) \<in> set switch_statuses"
    by (simp add: switch_statuses_def)
  have t2: "errorType limit_exceeded = ''LimitExceededException''"
    by (simp add: errorType_def limit_exceeded_def js_or_def truthy_def)
  have m2: "(''LimitExceededException'', 429) \<in> set switch_statuses"
    by (simp add: switch_statuses_def)
  have t3: "errorType internal_failure = ''InternalErrorException''"
    by (simp add: errorType_def internal_failure_def js_or_def truthy_def)
  have n: "errorType internal_failure \<notin> set (map fst switch_statuses)"
    by (simp add: t3 switch_statuses_def)
  note T1 = handleCognitoError_mapping [of user_not_found internal_failure, THEN conjunct1, THEN bspec, OF m1]
  note T2 = handleCognitoError_mapping [of limit_exceeded internal_failure, THEN conjunct1, THEN bspec, OF m2]
  note U = handleCognitoError_mapping [of internal_failure user_not_found,
      THEN conjunct2, THEN conjunct2, THEN conjunct2, THEN conjunct2, THEN conjunct1, THEN mp, OF n, THEN conjunct1]
  from T1 t1 have a: "statusCode (handleCognitoError user_not_found) = 404"
      "errorCode (handleCognitoError user_not_found) = ''UserNotFoundException''"
    by simp_all
  from T2 t2 have b: "statusCode (handleCognitoError limit_exceeded) = 429"
      "errorCode (handleCognitoError limit_exceeded) = ''LimitExceededException''"
    by simp_all
  from U have c: "handleCognitoError internal_failure
       = AppError ''An authentication error occurred. Please try again later.'' 500 ''INTERNAL_AUTH_ERROR''"
    by (simp add: generic_error_def)
  from t1 a t2 b n c show ?thesis by (intro conjI)
qed

section \<open>The credential hash\<close>

text \<open>The functions agree with the test vectors of the standards.\<close>

lemma sha256_abc:
  "hex (sha256 (bytes_of ''abc'')) = ''ba7816bf8f01cfea414140de5dae2223b00361a396177a9cb410ff61f20015ad''"
  by code_simp

lemma hmac_sha256_rfc4231:
  "base64 (hmac_sha256 (bytes_of ''Jefe'') (bytes_of ''what do ya want for nothing?''))
     = ''W9zBRr9gdU5qBCQmCJV1x1oAPwidJzmDnexYuWTsOEM=''"
  by code_simp

lemma base64_vectors:
  "base64 (bytes_of ''f'') = ''Zg=='' \<and> base64 (bytes_of ''fo'') = ''Zm8=''
   \<and> base64 (bytes_of ''foobar'') = ''Zm9vYmFy''"
  by code_simp

lemma bytes_of_append: "bytes_of (s @ t) = bytes_of s @ bytes_of t"
  by (simp add: bytes_of_def)

lemma digest_update_createHmac:
  "digest (update (createHmac SHA256 key) data) Base64
     = base64 (hmac_sha256 (bytes_of key) (bytes_of data))"
  by (simp add: digest_def update_def createHmac_def)

text \<open>
  Claim C8. \<open>calculateSecretHash\<close>, written with the calls the source makes on the HMAC
  object, is the base64 encoding of HMAC-SHA256 keyed by the secret over the bytes of
  \<open>username + clientId\<close>. It is a function of its three arguments and of nothing else:
  there is no state to read or to write, and equal inputs give equal output.
\<close>

theorem calculateSecretHash_is_spec_hash:
  "calculateSecretHash clientId clientSecret username = spec_hash clientId clientSecret username
   \<and> spec_hash clientId clientSecret username
       = base64 (hmac_sha256 (bytes_of clientSecret) (bytes_of username @ bytes_of clientId))
   \<and> (clientId = clientId' \<and> clientSecret = clientSecret' \<and> username = username'
      \<longrightarrow> calculateSecretHash clientId clientSecret username
          = calculateSecretHash clientId' clientSecret' username')"
  by (simp add: calculateSecretHash_def spec_hash_def digest_update_createHmac bytes_of_append)

text \<open>
  An instance: the key and the data of test case 2 of RFC 4231, the data split between
  user name and client identifier.
\<close>

theorem calculateSecretHash_is_spec_hash_witness:
  "calculateSecretHash ''for nothing?'' ''Jefe'' ''what do ya want ''
     = ''W9zBRr9gdU5qBCQmCJV1x1oAPwidJzmDnexYuWTsOEM=''"
proof -
  have c: "bytes_of ''what do ya want '' @ bytes_of ''for nothing?'' = bytes_of ''what do ya want for nothing?''"
    by (simp add: bytes_of_append [symmetric])
  note T = calculateSecretHash_is_spec_hash [of "''for nothing?''" "''Jefe''" "''what do ya want ''"]
  have "calculateSecretHash ''for nothing?'' ''Jefe'' ''what do ya want ''
      = base64 (hmac_sha256 (bytes_of ''Jefe'') (bytes_of ''what do ya want '' @ bytes_of ''for nothing?''))"
    by (rule trans [OF T [THEN conjunct1] T [THEN conjunct2, THEN conjunct1]])
  then show ?thesis
    unfolding c by (simp only: hmac_sha256_rfc4231)
qed

text \<open>
  Claim C10. The hash depends on the user name and the client identifier only through
  their concatenation: two pairs with the same concatenation have the same hash under
  the same secret.
\<close>

theorem calculateSecretHash_concat_collision:
  assumes "username1 @ clientId1 = username2 @ clientId2"
  shows "calculateSecretHash clientId1 clientSecret username1
           = calculateSecretHash clientId2 clientSecret username2"
  using assms by (simp add: calculateSecretHash_def)

text \<open>An instance: the pairs \<open>(a, bc)\<close> and \<open>(ab, c)\<close> differ and collide.\<close>

theorem calculateSecretHash_concat_collision_witness:
  "''a'' @ ''bc'' = ''ab'' @ ''c'' \<and> (''a'', ''bc'') \<noteq> (''ab'', ''c'')
   \<and> calculateSecretHash ''bc'' ''s'' ''a'' = calculateSecretHash ''c'' ''s'' ''ab''"
proof -
  have h: "''a'' @ ''bc'' = ''ab'' @ ''c''" by simp
  from calculateSecretHash_concat_collision [OF h, of "''s''"] h show ?thesis by simp
qed

end
